theory Spec2Isabelle
  imports Complex_Main "HOL-Library.Multiset"
begin

section \<open>Collision registry and queries (main.js, physics/collision.js)\<close>

text \<open>
  JavaScript numbers are modelled as real numbers: every quantity of the game is a finite
  double, and the properties below are about comparisons, sums and maxima of them.
  An obstacle is the object literal pushed by the world-build functions:
  \<^verbatim>\<open>{ position: new THREE.Vector3(x, 0, z), radius: r, type: 't', height: h }\<close>,
  where \<^verbatim>\<open>height\<close> is present for terraces only; an absent field reads as
  \<^verbatim>\<open>undefined\<close>, modelled by \<open>None\<close>.
\<close>

record obstacle =
  pos_x :: real
  pos_z :: real
  radius :: real
  kind :: string
  height :: "real option"

definition PLAYER_RADIUS :: real where
  "PLAYER_RADIUS = 1.0"

definition PLAYER_HEIGHT :: real where
  "PLAYER_HEIGHT = 2.0"

text \<open>\<^verbatim>\<open>THREE.Vector2.distanceTo\<close>: the Euclidean distance in the plane.\<close>

definition distanceTo :: "real \<times> real \<Rightarrow> real \<times> real \<Rightarrow> real" where
  "distanceTo p q = sqrt ((fst p - fst q)\<^sup>2 + (snd p - snd q)\<^sup>2)"

text \<open>\<^verbatim>\<open>registerCollidable(object) { collidableObjects.push(object); }\<close> and
  \<^verbatim>\<open>clearCollidables() { collidableObjects = []; }\<close>; the registry is the array.\<close>

definition registerCollidable :: "obstacle list \<Rightarrow> obstacle \<Rightarrow> obstacle list" where
  "registerCollidable collidableObjects object = collidableObjects @ [object]"

definition clearCollidables :: "obstacle list \<Rightarrow> obstacle list" where
  "clearCollidables collidableObjects = []"

text \<open>
  \<^verbatim>\<open>checkCollision(newX, newZ, playerY)\<close>: the \<^verbatim>\<open>for ... of\<close> loop over the registry
  is the recursion over the list; \<^verbatim>\<open>continue\<close> is the recursive call, \<^verbatim>\<open>return true\<close>
  ends the loop, and the boundary test runs when the loop is exhausted.
\<close>

fun checkCollision :: "obstacle list \<Rightarrow> real \<Rightarrow> real \<Rightarrow> real \<Rightarrow> bool" where
  "checkCollision [] newX newZ playerY = (\<bar>newX\<bar> > 240 \<or> \<bar>newZ\<bar> > 240)"
| "checkCollision (obj # rest) newX newZ playerY =
     (if distanceTo (newX, newZ) (pos_x obj, pos_z obj) < PLAYER_RADIUS + radius obj
      then (case height obj of
              Some objHeight \<Rightarrow>
                if playerY > objHeight + 1.5 then checkCollision rest newX newZ playerY
                else True
            | None \<Rightarrow> True)
      else checkCollision rest newX newZ playerY)"

text \<open>
  \<^verbatim>\<open>getGroundHeight(x, z, currentY)\<close>: the loop carries \<^verbatim>\<open>maxGroundHeight\<close>.
  \<^verbatim>\<open>if (!obj.height) continue\<close> skips an absent height and also the number 0.
\<close>

fun groundLoop :: "obstacle list \<Rightarrow> real \<Rightarrow> real \<Rightarrow> real \<Rightarrow> real \<Rightarrow> real" where
  "groundLoop [] x z currentY maxGroundHeight = maxGroundHeight"
| "groundLoop (obj # rest) x z currentY maxGroundHeight =
     (case height obj of
        None \<Rightarrow> groundLoop rest x z currentY maxGroundHeight
      | Some platformTop \<Rightarrow>
          if platformTop = 0 then groundLoop rest x z currentY maxGroundHeight
          else if distanceTo (x, z) (pos_x obj, pos_z obj) < radius obj
          then (if currentY \<ge> platformTop - 0.5 \<and> currentY \<le> platformTop + 3
                then groundLoop rest x z currentY (max maxGroundHeight platformTop)
                else groundLoop rest x z currentY maxGroundHeight)
          else groundLoop rest x z currentY maxGroundHeight)"

definition getGroundHeight :: "obstacle list \<Rightarrow> real \<Rightarrow> real \<Rightarrow> real \<Rightarrow> real" where
  "getGroundHeight collidableObjects x z currentY = groundLoop collidableObjects x z currentY 0"

subsection \<open>The ground height as the specification words it\<close>

text \<open>
  The specification's resolver: the landing candidates are the obstacles with a defined
  top height whose footprint holds the point and whose landing window
  \<open>[topHeight - 0.5, topHeight + 3]\<close> holds the current height; the result is the greatest
  candidate height, or 0 without a candidate.
\<close>

definition spec_candidate :: "real \<Rightarrow> real \<Rightarrow> real \<Rightarrow> obstacle \<Rightarrow> bool" where
  "spec_candidate x z currentY obj =
     (case height obj of
        None \<Rightarrow> False
      | Some h \<Rightarrow> distanceTo (x, z) (pos_x obj, pos_z obj) < radius obj
                  \<and> h - 0.5 \<le> currentY \<and> currentY \<le> h + 3)"

definition spec_heights :: "obstacle list \<Rightarrow> real \<Rightarrow> real \<Rightarrow> real \<Rightarrow> real list" where
  "spec_heights obs x z currentY =
     map (\<lambda>obj. case height obj of Some h \<Rightarrow> h | None \<Rightarrow> 0)
         (filter (spec_candidate x z currentY) obs)"

definition spec_groundHeight :: "obstacle list \<Rightarrow> real \<Rightarrow> real \<Rightarrow> real \<Rightarrow> real" where
  "spec_groundHeight obs x z currentY =
     (let hs = spec_heights obs x z currentY
      in if hs = [] then 0 else Max (set hs))"

text \<open>The data model's invariant on platform heights: a top height, when present, is not
  negative.\<close>

definition heights_nonneg :: "obstacle list \<Rightarrow> bool" where
  "heights_nonneg obs = list_all (\<lambda>obj. case height obj of None \<Rightarrow> True | Some h \<Rightarrow> 0 \<le> h) obs"

subsection \<open>Auxiliary predicates for the two loops\<close>

text \<open>An obstacle blocks a query when the loop of \<open>checkCollision\<close> returns at it.\<close>

definition blocks :: "real \<Rightarrow> real \<Rightarrow> real \<Rightarrow> obstacle \<Rightarrow> bool" where
  "blocks newX newZ playerY obj =
     (distanceTo (newX, newZ) (pos_x obj, pos_z obj) < PLAYER_RADIUS + radius obj
      \<and> (case height obj of Some objHeight \<Rightarrow> \<not> playerY > objHeight + 1.5 | None \<Rightarrow> True))"

text \<open>The heights the loop of \<open>getGroundHeight\<close> feeds to \<^verbatim>\<open>Math.max\<close>.\<close>

definition lands :: "real \<Rightarrow> real \<Rightarrow> real \<Rightarrow> obstacle \<Rightarrow> bool" where
  "lands x z currentY obj =
     (case height obj of
        None \<Rightarrow> False
      | Some h \<Rightarrow> h \<noteq> 0 \<and> distanceTo (x, z) (pos_x obj, pos_z obj) < radius obj
                  \<and> h - 0.5 \<le> currentY \<and> currentY \<le> h + 3)"

definition landed_heights :: "obstacle set \<Rightarrow> real \<Rightarrow> real \<Rightarrow> real \<Rightarrow> real set" where
  "landed_heights S x z currentY =
     (\<lambda>obj. case height obj of Some h \<Rightarrow> h | None \<Rightarrow> 0) ` {obj \<in> S. lands x z currentY obj}"

subsection \<open>Sample obstacles\<close>

definition flat_platform :: obstacle where
  "flat_platform = \<lparr>pos_x = 0, pos_z = 0, radius = 1, kind = ''terrace'', height = Some 0\<rparr>"

definition tree :: obstacle where
  "tree = \<lparr>pos_x = 10, pos_z = 0, radius = 2, kind = ''tree'', height = None\<rparr>"

definition platform3 :: obstacle where
  "platform3 = \<lparr>pos_x = 0, pos_z = 0, radius = 5, kind = ''terrace'', height = Some 3\<rparr>"

definition pebble :: obstacle where
  "pebble = \<lparr>pos_x = 3, pos_z = 4, radius = 0, kind = ''boulder'', height = None\<rparr>"

section \<open>The movement integrator of main.js\<close>

text \<open>
  A pond as \<^verbatim>\<open>createPond\<close> returns it (\<^verbatim>\<open>x\<close>, \<^verbatim>\<open>z\<close>, \<^verbatim>\<open>size\<close>, \<^verbatim>\<open>depth\<close>; the
  scene group and the fish are render data), and the two fields of the result of
  \<^verbatim>\<open>getWaterDepth\<close> that \<^verbatim>\<open>updateMovement\<close> reads.
\<close>

record pond =
  pond_x :: real
  pond_z :: real
  pond_size :: real
  pond_depth :: real

record waterData =
  inWater :: bool
  depth :: real

fun getWaterDepth :: "pond list \<Rightarrow> real \<Rightarrow> real \<Rightarrow> waterData" where
  "getWaterDepth [] x z = \<lparr>inWater = False, depth = 0\<rparr>"
| "getWaterDepth (pond # rest) x z =
     (let distanceToPondCenter = sqrt ((x - pond_x pond)\<^sup>2 + (z - pond_z pond)\<^sup>2)
      in if distanceToPondCenter < pond_size pond
         then (let depthFactor = 1 - (distanceToPondCenter / pond_size pond);
                   currentDepth = pond_depth pond * depthFactor
               in \<lparr>inWater = True, depth = currentDepth\<rparr>)
         else getWaterDepth rest x z)"

text \<open>
  The module-level variables that \<^verbatim>\<open>updateMovement\<close> and the key handlers read and write:
  \<^verbatim>\<open>camera.position\<close>, \<^verbatim>\<open>velocity\<close>, the movement flags, \<^verbatim>\<open>canJump\<close>, \<^verbatim>\<open>isRunning\<close>
  and \<^verbatim>\<open>currentGroundHeight\<close>.
\<close>

record player =
  cam_x :: real
  cam_y :: real
  cam_z :: real
  vel_x :: real
  vel_y :: real
  vel_z :: real
  moveForward :: bool
  moveBackward :: bool
  moveLeft :: bool
  moveRight :: bool
  canJump :: bool
  isRunning :: bool
  currentGroundHeight :: real

text \<open>
  What a frame takes from outside the integrator: the clock's \<^verbatim>\<open>deltaTime\<close>, the registry,
  the ponds, and the camera's orientation (\<^verbatim>\<open>camera.getWorldDirection\<close> and the first
  column of \<^verbatim>\<open>camera.matrix\<close>, which \<^verbatim>\<open>PointerLockControls\<close> moves along).
\<close>

record frame =
  deltaTime :: real
  collidables :: "obstacle list"
  pondList :: "pond list"
  worldDirection :: "real \<times> real \<times> real"
  cameraRight :: "real \<times> real \<times> real"

definition WALK_SPEED :: real where
  "WALK_SPEED = 50.0"

definition RUN_SPEED :: real where
  "RUN_SPEED = 100.0"

definition JUMP_VELOCITY :: real where
  "JUMP_VELOCITY = 35.0"

text \<open>\<^verbatim>\<open>Vector3.normalize\<close> divides by \<^verbatim>\<open>this.length() || 1\<close>; \<^verbatim>\<open>crossVectors\<close> is the
  cross product.\<close>

definition normalize3 :: "real \<times> real \<times> real \<Rightarrow> real \<times> real \<times> real" where
  "normalize3 v =
     (case v of (a, b, c) \<Rightarrow>
        let len = sqrt (a\<^sup>2 + b\<^sup>2 + c\<^sup>2);
            d = (if len = 0 then 1 else len)
        in (a / d, b / d, c / d))"

definition crossVectors :: "real \<times> real \<times> real \<Rightarrow> real \<times> real \<times> real \<Rightarrow> real \<times> real \<times> real" where
  "crossVectors u v =
     (case u of (ax, ay, az) \<Rightarrow> case v of (bx, by, bz) \<Rightarrow>
        (ay * bz - az * by, az * bx - ax * bz, ax * by - ay * bx))"

text \<open>
  \<^verbatim>\<open>PointerLockControls.moveRight(distance)\<close> adds \<^verbatim>\<open>distance\<close> times the camera's first
  matrix column to the position; \<^verbatim>\<open>moveForward(distance)\<close> adds \<^verbatim>\<open>distance\<close> times the
  cross product of \<^verbatim>\<open>camera.up\<close> (the default \<open>(0, 1, 0)\<close>) with that column.
\<close>

definition controls_moveRight ::
  "frame \<Rightarrow> real \<Rightarrow> real \<times> real \<times> real \<Rightarrow> real \<times> real \<times> real" where
  "controls_moveRight f distance p =
     (case p of (x, y, z) \<Rightarrow> case cameraRight f of (rx, ry, rz) \<Rightarrow>
        (x + rx * distance, y + ry * distance, z + rz * distance))"

definition controls_moveForward ::
  "frame \<Rightarrow> real \<Rightarrow> real \<times> real \<times> real \<Rightarrow> real \<times> real \<times> real" where
  "controls_moveForward f distance p =
     (case p of (x, y, z) \<Rightarrow> case crossVectors (0, 1, 0) (cameraRight f) of (fx, fy, fz) \<Rightarrow>
        (x + fx * distance, y + fy * distance, z + fz * distance))"

text \<open>\<^verbatim>\<open>Number(b)\<close> of a boolean.\<close>

definition Number :: "bool \<Rightarrow> real" where
  "Number b = (if b then 1 else 0)"

text \<open>
  The depth tiers of \<^verbatim>\<open>updateMovement\<close>: the pair \<^verbatim>\<open>(waterResistance, sinkRate)\<close> that
  the \<^verbatim>\<open>if (waterData.depth < 1.0) ... else if (waterData.depth < 3.0) ... else\<close> chain
  assigns.
\<close>

definition waterTier :: "real \<Rightarrow> bool \<Rightarrow> real \<times> real" where
  "waterTier waterDepth running =
     (if waterDepth < 1.0 then (0.9, 0.2)
      else if waterDepth < 3.0 then (0.6, 0.5)
      else if running then (0.4, 0.8)
      else (0.2, 1.2))"

text \<open>
  \<^verbatim>\<open>updateMovement()\<close>, statement by statement. Each \<open>let\<close> is one assignment of the
  source; the camera position is threaded through the sinking, the two control moves, the
  vertical step and the ground clamp in the source's order.
\<close>

definition updateMovement :: "frame \<Rightarrow> player \<Rightarrow> player" where
  "updateMovement f s =
     (let dt = deltaTime f;
          vy = vel_y s - 9.8 * 5.0 * dt;
          groundHeight = getGroundHeight (collidables f) (cam_x s) (cam_z s) (cam_y s);
          groundLevel = groundHeight + PLAYER_HEIGHT;
          isGrounded = (cam_y s \<le> groundLevel + 0.1);
          friction = (if isGrounded then 10.0 else 2.0);
          vx1 = vel_x s - vel_x s * friction * dt;
          vz1 = vel_z s - vel_z s * friction * dt;
          direction = normalize3 (Number (moveRight s) - Number (moveLeft s), 0,
                                  Number (moveForward s) - Number (moveBackward s));
          direction_x = fst direction;
          direction_z = snd (snd direction);
          water = getWaterDepth (pondList f) (cam_x s) (cam_z s);
          wading = (inWater water \<and> isGrounded);
          tier = (if wading then waterTier (depth water) (isRunning s) else (1.0, 0));
          waterResistance = fst tier;
          sinkRate = snd tier;
          waterBottom = - depth water;
          y1 = (if wading
                then (if cam_y s - sinkRate * dt < waterBottom + PLAYER_HEIGHT
                      then waterBottom + PLAYER_HEIGHT
                      else cam_y s - sinkRate * dt)
                else cam_y s);
          speed = (if isRunning s then RUN_SPEED else WALK_SPEED);
          airControlFactor = (if isGrounded then 1.0 else 0.7);
          finalSpeedFactor = airControlFactor * waterResistance;
          vz2 = (if moveForward s \<or> moveBackward s
                 then vz1 - direction_z * speed * dt * finalSpeedFactor else vz1);
          vx2 = (if moveLeft s \<or> moveRight s
                 then vx1 - direction_x * speed * dt * finalSpeedFactor else vx1);
          moveVector = normalize3 (fst (worldDirection f), 0, snd (snd (worldDirection f)));
          strafeVector = normalize3 (crossVectors (0, 1, 0) moveVector);
          potentialX = cam_x s - fst strafeVector * vx2 * dt - fst moveVector * vz2 * dt;
          potentialZ = cam_z s - snd (snd strafeVector) * vx2 * dt
                         - snd (snd moveVector) * vz2 * dt;
          blocked = checkCollision (collidables f) potentialX potentialZ y1;
          moved = (if \<not> blocked
                   then controls_moveForward f (- vz2 * dt)
                          (controls_moveRight f (- vx2 * dt) (cam_x s, y1, cam_z s))
                   else (cam_x s, y1, cam_z s));
          vx3 = (if blocked then 0 else vx2);
          vz3 = (if blocked then 0 else vz2);
          y2 = fst (snd moved) + vy * dt;
          landing = (y2 < groundLevel)
      in s\<lparr>cam_x := fst moved,
            cam_y := (if landing then groundLevel else y2),
            cam_z := snd (snd moved),
            vel_x := vx3,
            vel_y := (if landing then 0 else vy),
            vel_z := vz3,
            canJump := (if landing then True else canJump s),
            currentGroundHeight := groundHeight\<rparr>)"

text \<open>
  The key handlers of \<^verbatim>\<open>setupEventListeners\<close> on the player's variables. The codes
  \<^verbatim>\<open>KeyN\<close>, \<^verbatim>\<open>KeyF\<close>, \<^verbatim>\<open>KeyE\<close>, \<^verbatim>\<open>KeyB\<close> and every other code leave them alone.
\<close>

definition onKeyDown :: "string \<Rightarrow> player \<Rightarrow> player" where
  "onKeyDown code s =
     (if code = ''KeyW'' then s\<lparr>moveForward := True\<rparr>
      else if code = ''KeyS'' then s\<lparr>moveBackward := True\<rparr>
      else if code = ''KeyA'' then s\<lparr>moveLeft := True\<rparr>
      else if code = ''KeyD'' then s\<lparr>moveRight := True\<rparr>
      else if code = ''Space''
      then s\<lparr>vel_y := (if canJump s then JUMP_VELOCITY else vel_y s), canJump := False\<rparr>
      else if code = ''ShiftLeft'' then s\<lparr>isRunning := True\<rparr>
      else s)"

definition onKeyUp :: "string \<Rightarrow> player \<Rightarrow> player" where
  "onKeyUp code s =
     (if code = ''KeyW'' then s\<lparr>moveForward := False\<rparr>
      else if code = ''KeyS'' then s\<lparr>moveBackward := False\<rparr>
      else if code = ''KeyA'' then s\<lparr>moveLeft := False\<rparr>
      else if code = ''KeyD'' then s\<lparr>moveRight := False\<rparr>
      else if code = ''ShiftLeft'' then s\<lparr>isRunning := False\<rparr>
      else s)"

subsection \<open>A sample frame\<close>

text \<open>A player standing on bare ground, free to jump, and a frame of a tenth of a second
  in an empty world with the camera looking along \<open>-z\<close>.\<close>

definition standing :: player where
  "standing = \<lparr>cam_x = 0, cam_y = 2, cam_z = 0, vel_x = 0, vel_y = 0, vel_z = 0,
     moveForward = False, moveBackward = False, moveLeft = False, moveRight = False,
     canJump = True, isRunning = False, currentGroundHeight = 0\<rparr>"

definition openField :: frame where
  "openField = \<lparr>deltaTime = 0.1, collidables = [], pondList = [],
     worldDirection = (0, 0, -1), cameraRight = (1, 0, 0)\<rparr>"

text \<open>The same player a little above the ground, falling, its jump spent.\<close>

definition falling :: player where
  "falling = standing\<lparr>cam_y := 2.2, vel_y := - 1, canJump := False\<rparr>"

text \<open>The same player far below the ground, away from the origin.\<close>

definition buried :: player where
  "buried = standing\<lparr>cam_x := 7, cam_y := - 50\<rparr>"

section \<open>The player entity of Entities/Player.js\<close>

text \<open>
  The terrain of \<^verbatim>\<open>World.js\<close>: \<^verbatim>\<open>terrainSize\<close>, \<^verbatim>\<open>terrainResolution\<close> and the
  height matrix, read by \<^verbatim>\<open>getTerrainHeightAt\<close>. The matrix is square with
  \<^verbatim>\<open>terrainResolution\<close> rows, so the guarded index is in range; \<^verbatim>\<open>createTerrain\<close>
  sets the size to 100 and the resolution to 128.
\<close>

record world =
  terrainSize :: real
  terrainResolution :: int
  terrainMatrix :: "int \<Rightarrow> int \<Rightarrow> real"

definition getTerrainHeightAt :: "world \<Rightarrow> real \<Rightarrow> real \<Rightarrow> real" where
  "getTerrainHeightAt w x z =
     (let halfSize = terrainSize w / 2
      in if x < - halfSize \<or> x > halfSize \<or> z < - halfSize \<or> z > halfSize then - 100
         else (let elementSize = terrainSize w / (real_of_int (terrainResolution w) - 1);
                   ix = (x + halfSize) / elementSize;
                   iz = (z + halfSize) / elementSize;
                   ix1 = \<lfloor>ix\<rfloor>;
                   iz1 = \<lfloor>iz\<rfloor>
               in if ix1 \<ge> 0 \<and> ix1 < terrainResolution w \<and> iz1 \<ge> 0 \<and> iz1 < terrainResolution w
                  then terrainMatrix w ix1 iz1
                  else 0))"

text \<open>
  The fields of \<^verbatim>\<open>Player\<close> that its update reads and writes: the physics body's position,
  velocity and damping, the upward force handed to \<^verbatim>\<open>body.applyForce\<close>, the mesh's
  rotation about the vertical axis, and the jump state \<^verbatim>\<open>jumpCount\<close>, \<^verbatim>\<open>canJump\<close>
  (here \<open>jumpReleased\<close>: the main.js variable of that name is another one) and
  \<^verbatim>\<open>isSwimming\<close>.
\<close>

record body =
  body_x :: real
  body_y :: real
  body_z :: real
  bvel_x :: real
  bvel_y :: real
  bvel_z :: real
  linearDamping :: real
  force_y :: real
  mesh_rotation_y :: real
  jumpCount :: int
  jumpReleased :: bool
  isSwimming :: bool

text \<open>\<^verbatim>\<open>InputManager.keys\<close>.\<close>

record keys =
  key_forward :: bool
  key_backward :: bool
  key_left :: bool
  key_right :: bool
  key_jump :: bool
  key_run :: bool

definition resetToGround :: "world \<Rightarrow> body \<Rightarrow> body" where
  "resetToGround w p =
     (let terrain = getTerrainHeightAt w 0 0
      in p\<lparr>body_x := 0, body_y := terrain + 2, body_z := 0,
            bvel_x := 0, bvel_y := 0, bvel_z := 0\<rparr>)"

text \<open>
  \<^verbatim>\<open>isGrounded()\<close> casts a ray from the body's position to the point 1.0 below it with
  \<^verbatim>\<open>physicsWorld.raycastClosest(start, end, {}, raycastResult)\<close> and returns
  \<^verbatim>\<open>raycastResult.hasHit\<close>. The empty options filter no body out, and the player's own
  body, the sphere of radius 0.8 that \<^verbatim>\<open>initPlayer\<close> adds to the physics world, is centred
  at the ray's start. \<open>intersectSphere\<close> is the ray-sphere test of cannon-es: the roots of
  the quadratic in the ray parameter, a hit when the discriminant is zero or a root lies in
  \<open>[0, 1]\<close>. Whether the ray hits another body as well (the terrain, a rock) is the argument
  \<open>otherHit\<close>.
\<close>

definition BODY_RADIUS :: real where
  "BODY_RADIUS = 0.8"

definition intersectSphere ::
  "real \<times> real \<times> real \<Rightarrow> real \<times> real \<times> real \<Rightarrow> real \<times> real \<times> real \<Rightarrow> real \<Rightarrow> bool" where
  "intersectSphere from to position r =
     (case from of (fx, fy, fz) \<Rightarrow> case to of (tx, ty, tz) \<Rightarrow> case position of (px, py, pz) \<Rightarrow>
        let a = (tx - fx)\<^sup>2 + (ty - fy)\<^sup>2 + (tz - fz)\<^sup>2;
            b = 2 * ((tx - fx) * (fx - px) + (ty - fy) * (fy - py) + (tz - fz) * (fz - pz));
            c = (fx - px)\<^sup>2 + (fy - py)\<^sup>2 + (fz - pz)\<^sup>2 - r\<^sup>2;
            delta = b\<^sup>2 - 4 * a * c
        in if delta < 0 then False
           else if delta = 0 then True
           else (let d1 = (- b - sqrt delta) / (2 * a);
                     d2 = (- b + sqrt delta) / (2 * a)
                 in (d1 \<ge> 0 \<and> d1 \<le> 1) \<or> (d2 \<ge> 0 \<and> d2 \<le> 1)))"

definition isGrounded :: "bool \<Rightarrow> body \<Rightarrow> bool" where
  "isGrounded otherHit p =
     (let start = (body_x p, body_y p, body_z p);
          end = (body_x p, body_y p - 1.0, body_z p);
          ownHit = intersectSphere start end (body_x p, body_y p, body_z p) BODY_RADIUS
      in ownHit \<or> otherHit)"

text \<open>\<^verbatim>\<open>handleMovement(deltaTime)\<close>, with the ray's hits on other bodies as \<open>otherHit\<close>.\<close>

definition handleMovement :: "keys \<Rightarrow> bool \<Rightarrow> real \<Rightarrow> body \<Rightarrow> body" where
  "handleMovement k otherHit dt p =
     (let swimming = isSwimming p;
          speed0 = (if key_run k then 12 else 6);
          speed = (if swimming then speed0 * 0.5 else speed0);
          jumpForce = 8;
          rotateSpeed = 2.5 * dt;
          rot1 = (if key_left k then mesh_rotation_y p + rotateSpeed else mesh_rotation_y p);
          rot2 = (if key_right k then rot1 - rotateSpeed else rot1);
          moveFwd0 = (if key_forward k then 1 else 0);
          moveFwd = (if key_backward k then - 1 else moveFwd0);
          friction = (if swimming then 0.8 else 0.5);
          vx = (if moveFwd \<noteq> 0 then - sin rot2 * speed * moveFwd else bvel_x p * friction);
          vz = (if moveFwd \<noteq> 0 then - cos rot2 * speed * moveFwd else bvel_z p * friction);
          count0 = (if isGrounded otherHit p then 0 else jumpCount p);
          p1 = p\<lparr>bvel_x := vx, bvel_z := vz, mesh_rotation_y := rot2, jumpCount := count0\<rparr>
      in if key_jump k
         then (if jumpReleased p
               then (if swimming \<and> body_y p > - 1.5
                     then p1\<lparr>bvel_y := 10, isSwimming := False, jumpReleased := False\<rparr>
                     else if count0 < 3
                     then p1\<lparr>bvel_y := jumpForce, jumpCount := count0 + 1, jumpReleased := False\<rparr>
                     else p1\<lparr>jumpReleased := False\<rparr>)
               else p1)
         else p1\<lparr>jumpReleased := True\<rparr>)"

definition checkWater :: "world \<Rightarrow> body \<Rightarrow> body" where
  "checkWater w p =
     (let waterLevel = - 0.5;
          p1 = (if body_y p < waterLevel
                then (let waterDepth = waterLevel - body_y p
                      in p\<lparr>isSwimming := True, linearDamping := 0.9,
                            force_y := (if waterDepth > 0 then force_y p + 20 * waterDepth
                                        else force_y p)\<rparr>)
                else p\<lparr>isSwimming := False, linearDamping := 0.9\<rparr>)
      in if body_y p1 < - 20 then resetToGround w p1 else p1)"

text \<open>
  \<^verbatim>\<open>update(deltaTime)\<close>: the terrain clamp, then \<^verbatim>\<open>handleMovement\<close> and \<^verbatim>\<open>checkWater\<close>.
  The mesh copy, \<^verbatim>\<open>updateCamera\<close> and \<^verbatim>\<open>animateCharacter\<close> write render objects only.
\<close>

definition terrainClamp :: "world \<Rightarrow> body \<Rightarrow> body" where
  "terrainClamp w p =
     (let terrainHeight = getTerrainHeightAt w (body_x p) (body_z p);
          minHeight = terrainHeight + 0.8
      in if body_y p < minHeight
         then p\<lparr>body_y := minHeight, bvel_y := max 0 (bvel_y p)\<rparr>
         else p)"

definition update :: "world \<Rightarrow> keys \<Rightarrow> bool \<Rightarrow> real \<Rightarrow> body \<Rightarrow> body" where
  "update w k otherHit dt p = checkWater w (handleMovement k otherHit dt (terrainClamp w p))"

subsection \<open>A sample world and bodies\<close>

text \<open>The terrain of \<^verbatim>\<open>createTerrain\<close> flattened to height 0: 100 units wide, 128 samples.\<close>

definition flatWorld :: world where
  "flatWorld = \<lparr>terrainSize = 100, terrainResolution = 128, terrainMatrix = (\<lambda>i j. 0)\<rparr>"

definition fallen :: body where
  "fallen = \<lparr>body_x = 60, body_y = - 25, body_z = 0, bvel_x = 3, bvel_y = - 30, bvel_z = 0,
     linearDamping = 0.9, force_y = 0, mesh_rotation_y = 0, jumpCount = 0,
     jumpReleased = True, isSwimming = False\<rparr>"

definition jumpKey :: keys where
  "jumpKey = \<lparr>key_forward = False, key_backward = False, key_left = False, key_right = False,
     key_jump = True, key_run = False\<rparr>"

definition noKey :: keys where
  "noKey = \<lparr>key_forward = False, key_backward = False, key_left = False, key_right = False,
     key_jump = False, key_run = False\<rparr>"

definition onGround :: body where
  "onGround = \<lparr>body_x = 0, body_y = 0.8, body_z = 0, bvel_x = 0, bvel_y = 0, bvel_z = 0,
     linearDamping = 0.9, force_y = 0, mesh_rotation_y = 0, jumpCount = 0,
     jumpReleased = True, isSwimming = False\<rparr>"

definition afloat :: body where
  "afloat = \<lparr>body_x = 0, body_y = - 1, body_z = 0, bvel_x = 0, bvel_y = 0, bvel_z = 0,
     linearDamping = 0.9, force_y = 0, mesh_rotation_y = 0, jumpCount = 3,
     jumpReleased = True, isSwimming = True\<rparr>"

definition sunk :: body where
  "sunk = \<lparr>body_x = 5, body_y = - 25, body_z = 5, bvel_x = 3, bvel_y = - 30, bvel_z = 0,
     linearDamping = 0.9, force_y = 0, mesh_rotation_y = 0, jumpCount = 0,
     jumpReleased = True, isSwimming = False\<rparr>"

definition midAir :: body where
  "midAir = \<lparr>body_x = 0, body_y = 12, body_z = 0, bvel_x = 0, bvel_y = - 2, bvel_z = 0,
     linearDamping = 0.9, force_y = 0, mesh_rotation_y = 0, jumpCount = 3,
     jumpReleased = True, isSwimming = False\<rparr>"

text \<open>
  The earlier revision of the class kept beside it has the same respawn at the end of its
  \<^verbatim>\<open>checkWater\<close>; only the swimming branch differs (damping 0.95, a constant push of 15,
  no swimming flag).
\<close>

definition checkWater_earlier :: "world \<Rightarrow> body \<Rightarrow> body" where
  "checkWater_earlier w p =
     (let p1 = (if body_y p < - 0.5
                then p\<lparr>linearDamping := 0.95, force_y := force_y p + 15\<rparr>
                else p\<lparr>linearDamping := 0.9\<rparr>)
      in if body_y p1 < - 20 then resetToGround w p1 else p1)"

section \<open>Collectibles, ponds and objectives (main.js)\<close>

text \<open>
  \<^verbatim>\<open>gameState\<close> with the fields the game logic reads: the score, the gem counters, the
  started and won flags, the three objectives, the set of visited pond indices and the
  treasure flag. (\<^verbatim>\<open>currentObjective\<close> and \<^verbatim>\<open>timeElapsed\<close> are display data.)
\<close>

record objective =
  label :: string
  completed :: bool

record gameState =
  score :: int
  gemsCollected :: int
  totalGems :: int
  gameStarted :: bool
  gameWon :: bool
  objectives :: "objective list"
  pondsVisited :: "nat set"
  treasureFound :: bool

text \<open>
  A collectible: its world position and its \<^verbatim>\<open>userData\<close>. The treasure chest carries
  \<^verbatim>\<open>isTreasure\<close> and neither \<^verbatim>\<open>type\<close> nor \<^verbatim>\<open>value\<close>; \<^verbatim>\<open>collectItem\<close> reads
  \<^verbatim>\<open>value\<close> only on the branches of the other collectibles, which all carry one.
\<close>

record collectible =
  world_x :: real
  world_y :: real
  world_z :: real
  isTreasure :: bool
  ctype :: "string option"
  cvalue :: int
  collected :: bool

text \<open>\<^verbatim>\<open>gameState.objectives[i].completed = true\<close>; the array always holds the three
  objectives of the initial state.\<close>

definition complete :: "nat \<Rightarrow> objective list \<Rightarrow> objective list" where
  "complete i objs = objs[i := (objs ! i)\<lparr>completed := True\<rparr>]"

definition checkWinCondition :: "gameState \<Rightarrow> gameState" where
  "checkWinCondition gs =
     (if \<not> gameWon gs \<and> list_all completed (objectives gs)
      then gs\<lparr>gameWon := True\<rparr>
      else gs)"

text \<open>
  \<^verbatim>\<open>collectItem(collectible)\<close>: the flag, the branch on the kind, and
  \<^verbatim>\<open>checkWinCondition()\<close> at the end. Notifications, sounds, the removal animation and
  \<^verbatim>\<open>updateGameUI\<close> write nothing the game logic reads.
\<close>

definition collectItem :: "gameState \<Rightarrow> collectible \<Rightarrow> gameState \<times> collectible" where
  "collectItem gs c =
     (let c1 = c\<lparr>collected := True\<rparr>;
          gs1 = (if isTreasure c
                 then gs\<lparr>treasureFound := True, score := score gs + 500,
                         objectives := complete 1 (objectives gs)\<rparr>
                 else if ctype c = Some ''gem''
                 then (let n = gemsCollected gs + 1;
                           gs' = gs\<lparr>gemsCollected := n, score := score gs + cvalue c\<rparr>
                       in if n \<ge> totalGems gs'
                          then gs'\<lparr>objectives := complete 0 (objectives gs')\<rparr>
                          else gs')
                 else gs\<lparr>score := score gs + cvalue c\<rparr>)
      in (checkWinCondition gs1, c1))"

text \<open>The callback of \<^verbatim>\<open>collectibles.forEach\<close> in \<^verbatim>\<open>checkCollectibles\<close>, and the loop.\<close>

definition checkCollectible ::
  "real \<times> real \<times> real \<Rightarrow> gameState \<Rightarrow> collectible \<Rightarrow> gameState \<times> collectible" where
  "checkCollectible playerPos gs c =
     (if collected c then (gs, c)
      else (case playerPos of (px, py, pz) \<Rightarrow>
        let horizontalDist = sqrt ((px - world_x c)\<^sup>2 + (pz - world_z c)\<^sup>2);
            verticalDist = \<bar>py - world_y c\<bar>
        in if horizontalDist < 2.0 \<and> verticalDist < 2.5 then collectItem gs c else (gs, c)))"

fun checkCollectibles ::
  "real \<times> real \<times> real \<Rightarrow> gameState \<Rightarrow> collectible list \<Rightarrow> gameState \<times> collectible list" where
  "checkCollectibles playerPos gs [] = (gs, [])"
| "checkCollectibles playerPos gs (c # cs) =
     (case checkCollectible playerPos gs c of (gs1, c1) \<Rightarrow>
        case checkCollectibles playerPos gs1 cs of (gs2, cs2) \<Rightarrow> (gs2, c1 # cs2))"

text \<open>
  \<^verbatim>\<open>checkPondVisits()\<close>: \<^verbatim>\<open>ponds.forEach((pond, index) => ...)\<close> with the index carried
  along. The player position is taken at height 0 and the pond group sits at height 0, so
  the distance is the planar one.
\<close>

fun pondVisitLoop :: "real \<times> real \<Rightarrow> nat \<Rightarrow> pond list \<Rightarrow> gameState \<Rightarrow> gameState" where
  "pondVisitLoop playerPos index [] gs = gs"
| "pondVisitLoop playerPos index (pond # rest) gs =
     (let distance = distanceTo playerPos (pond_x pond, pond_z pond);
          gs1 = (if distance < 20 \<and> index \<notin> pondsVisited gs
                 then (let gs' = gs\<lparr>pondsVisited := insert index (pondsVisited gs)\<rparr>
                       in if card (pondsVisited gs') \<ge> 3
                          then gs'\<lparr>objectives := complete 2 (objectives gs')\<rparr>
                          else gs')
                 else gs)
      in pondVisitLoop playerPos (Suc index) rest gs1)"

definition checkPondVisits :: "real \<times> real \<times> real \<Rightarrow> pond list \<Rightarrow> gameState \<Rightarrow> gameState" where
  "checkPondVisits cameraPos ponds gs =
     (case cameraPos of (px, py, pz) \<Rightarrow> pondVisitLoop (px, pz) 0 ponds gs)"

text \<open>The game part of \<^verbatim>\<open>animate()\<close>:
  \<^verbatim>\<open>if (gameState.gameStarted && !gameState.gameWon) { checkCollectibles(); checkPondVisits(); }\<close>.\<close>

definition gameChecks ::
  "real \<times> real \<times> real \<Rightarrow> pond list \<Rightarrow> gameState \<times> collectible list \<Rightarrow>
     gameState \<times> collectible list" where
  "gameChecks cameraPos ponds st =
     (case st of (gs, cs) \<Rightarrow>
        if gameStarted gs \<and> \<not> gameWon gs
        then (case checkCollectibles cameraPos gs cs of (gs1, cs1) \<Rightarrow>
                (checkPondVisits cameraPos ponds gs1, cs1))
        else (gs, cs))"

text \<open>A run of frames, one camera position per frame.\<close>

fun gameRun ::
  "(real \<times> real \<times> real) list \<Rightarrow> pond list \<Rightarrow> gameState \<times> collectible list \<Rightarrow>
     gameState \<times> collectible list" where
  "gameRun [] ponds st = st"
| "gameRun (p # ps) ponds st = gameRun ps ponds (gameChecks p ponds st)"

text \<open>What collecting a collectible adds to the score: the constant 500 of the treasure
  branch, otherwise the collectible's \<^verbatim>\<open>value\<close>.\<close>

definition award :: "collectible \<Rightarrow> int" where
  "award c = (if isTreasure c then 500 else cvalue c)"

text \<open>One collectible checked frame after frame, whatever else happens to the game state
  between two checks being left out.\<close>

fun recheck ::
  "(real \<times> real \<times> real) list \<Rightarrow> gameState \<times> collectible \<Rightarrow> gameState \<times> collectible" where
  "recheck [] st = st"
| "recheck (p # ps) st = recheck ps (checkCollectible p (fst st) (snd st))"

subsection \<open>A sample game\<close>

text \<open>The three ponds of \<^verbatim>\<open>createPonds\<close>, and a game in which every gem and the treasure
  have been collected and two ponds visited.\<close>

definition parkPonds :: "pond list" where
  "parkPonds =
     [\<lparr>pond_x = - 60, pond_z = 40, pond_size = 15, pond_depth = 3.5\<rparr>,
      \<lparr>pond_x = 50, pond_z = - 50, pond_size = 20, pond_depth = 6.0\<rparr>,
      \<lparr>pond_x = - 30, pond_z = - 60, pond_size = 12, pond_depth = 2.0\<rparr>]"

definition threeObjectives :: "bool \<Rightarrow> bool \<Rightarrow> bool \<Rightarrow> objective list" where
  "threeObjectives a b c =
     [\<lparr>label = ''Explore the park and collect all gems!'', completed = a\<rparr>,
      \<lparr>label = ''Find the hidden treasure near the gazebo'', completed = b\<rparr>,
      \<lparr>label = ''Visit all three ponds'', completed = c\<rparr>]"

definition gem :: collectible where
  "gem = \<lparr>world_x = 20, world_y = 1.5, world_z = 20, isTreasure = False,
     ctype = Some ''gem'', cvalue = 100, collected = False\<rparr>"

definition treasure :: collectible where
  "treasure = \<lparr>world_x = - 70, world_y = 0.3, world_z = - 30, isTreasure = True,
     ctype = None, cvalue = 0, collected = False\<rparr>"

definition lateGame :: gameState where
  "lateGame = \<lparr>score = 600, gemsCollected = 1, totalGems = 1, gameStarted = True,
     gameWon = False, objectives = threeObjectives True True False,
     pondsVisited = {0, 1}, treasureFound = True\<rparr>"

definition newGame :: gameState where
  "newGame = \<lparr>score = 0, gemsCollected = 0, totalGems = 1, gameStarted = True,
     gameWon = False, objectives = threeObjectives False False False,
     pondsVisited = {}, treasureFound = False\<rparr>"

definition allCollected :: "collectible list" where
  "allCollected = [gem\<lparr>collected := True\<rparr>, treasure\<lparr>collected := True\<rparr>]"

definition thirdPond :: "real \<times> real \<times> real" where
  "thirdPond = (- 30, 2, - 60)"

definition atGem :: "real \<times> real \<times> real" where
  "atGem = (20, 2, 20)"

section \<open>Facts about the collision loops\<close>

lemma checkCollision_iff:
  "checkCollision obs newX newZ playerY =
     ((\<exists>obj \<in> set obs. blocks newX newZ playerY obj) \<or> \<bar>newX\<bar> > 240 \<or> \<bar>newZ\<bar> > 240)"
  by (induction obs) (auto simp: blocks_def split: option.splits)

lemma landed_heights_insert:
  "landed_heights (insert obj S) x z y =
     (if lands x z y obj
      then insert (case height obj of Some h \<Rightarrow> h | None \<Rightarrow> 0) (landed_heights S x z y)
      else landed_heights S x z y)"
  by (auto simp: landed_heights_def)

lemma finite_landed_heights: "finite S \<Longrightarrow> finite (landed_heights S x z y)"
  by (simp add: landed_heights_def)

lemma groundLoop_Max:
  "groundLoop obs x z y m = Max (insert m (landed_heights (set obs) x z y))"
proof (induction obs arbitrary: m)
  case Nil
  show ?case by (simp add: landed_heights_def)
next
  case (Cons obj rest)
  have fin: "finite (landed_heights (set rest) x z y)"
    by (rule finite_landed_heights) simp
  show ?case
  proof (cases "lands x z y obj")
    case True
    then obtain h where h: "height obj = Some h" "h \<noteq> 0"
      "distanceTo (x, z) (pos_x obj, pos_z obj) < radius obj" "h - 0.5 \<le> y" "y \<le> h + 3"
      by (auto simp: lands_def split: option.splits)
    have "groundLoop (obj # rest) x z y m = groundLoop rest x z y (max m h)"
      using h by simp
    also have "\<dots> = Max (insert (max m h) (landed_heights (set rest) x z y))"
      by (rule Cons.IH)
    also have "\<dots> = Max (insert m (insert h (landed_heights (set rest) x z y)))"
      using fin by (cases "landed_heights (set rest) x z y = {}") (auto simp: max.assoc)
    finally show ?thesis
      using True h by (simp add: landed_heights_insert)
  next
    case False
    then have "groundLoop (obj # rest) x z y m = groundLoop rest x z y m"
      by (auto simp: lands_def split: option.splits)
    then show ?thesis
      using False Cons.IH by (simp add: landed_heights_insert)
  qed
qed

lemma getGroundHeight_Max:
  "getGroundHeight obs x z y = Max (insert 0 (landed_heights (set obs) x z y))"
  by (simp add: getGroundHeight_def groundLoop_Max)

lemma distanceTo_less_iff:
  "0 < r \<Longrightarrow> distanceTo p q < r \<longleftrightarrow> (fst p - fst q)\<^sup>2 + (snd p - snd q)\<^sup>2 < r\<^sup>2"
proof -
  assume r: "0 < r"
  have "sqrt ((fst p - fst q)\<^sup>2 + (snd p - snd q)\<^sup>2) < sqrt (r\<^sup>2)
          \<longleftrightarrow> (fst p - fst q)\<^sup>2 + (snd p - snd q)\<^sup>2 < r\<^sup>2"
    by (rule real_sqrt_less_iff)
  moreover have "sqrt (r\<^sup>2) = r"
    using r by simp
  ultimately show ?thesis
    by (simp add: distanceTo_def)
qed

lemma spec_heights_set:
  "set (spec_heights obs x z y) =
     (\<lambda>obj. case height obj of Some h \<Rightarrow> h | None \<Rightarrow> 0) ` {obj \<in> set obs. spec_candidate x z y obj}"
  by (auto simp: spec_heights_def)

lemma landed_subset_spec:
  "landed_heights (set obs) x z y \<subseteq> set (spec_heights obs x z y)"
  unfolding spec_heights_set landed_heights_def
  by (auto simp: lands_def spec_candidate_def split: option.splits)

lemma spec_subset_landed:
  "set (spec_heights obs x z y) \<subseteq> insert 0 (landed_heights (set obs) x z y)"
proof
  fix h assume "h \<in> set (spec_heights obs x z y)"
  then obtain obj where obj: "obj \<in> set obs" "spec_candidate x z y obj"
    "h = (case height obj of Some h \<Rightarrow> h | None \<Rightarrow> 0)"
    unfolding spec_heights_set by auto
  show "h \<in> insert 0 (landed_heights (set obs) x z y)"
  proof (cases "h = 0")
    case True
    then show ?thesis by simp
  next
    case False
    with obj have "lands x z y obj"
      by (auto simp: lands_def spec_candidate_def split: option.splits)
    with obj show ?thesis
      by (auto simp: landed_heights_def)
  qed
qed

lemma getGroundHeight_Max_spec:
  "getGroundHeight obs x z y = Max (insert 0 (set (spec_heights obs x z y)))"
proof -
  have "insert 0 (landed_heights (set obs) x z y) = insert 0 (set (spec_heights obs x z y))"
    using landed_subset_spec [of obs x z y] spec_subset_landed [of obs x z y] by blast
  then show ?thesis
    by (simp add: getGroundHeight_Max)
qed

lemma getGroundHeight_max_spec:
  "getGroundHeight obs x z y = max 0 (spec_groundHeight obs x z y)"
  by (simp add: getGroundHeight_Max_spec spec_groundHeight_def Let_def)

lemma spec_groundHeight_nonneg:
  assumes "heights_nonneg obs"
  shows "0 \<le> spec_groundHeight obs x z y"
proof (cases "spec_heights obs x z y = []")
  case True
  then show ?thesis by (simp add: spec_groundHeight_def)
next
  case False
  then obtain h where h: "h \<in> set (spec_heights obs x z y)"
    by (cases "spec_heights obs x z y") auto
  then obtain obj where "obj \<in> set obs" "h = (case height obj of Some h \<Rightarrow> h | None \<Rightarrow> 0)"
    unfolding spec_heights_set by auto
  with assms have "0 \<le> h"
    by (auto simp: heights_nonneg_def list_all_iff split: option.splits)
  moreover have "h \<le> Max (set (spec_heights obs x z y))"
    using h by simp
  ultimately show ?thesis
    using False by (simp add: spec_groundHeight_def)
qed

section \<open>Facts about the integrator, the entity and the game checks\<close>

lemma getGroundHeight_nonneg: "0 \<le> getGroundHeight obs x z y"
  by (simp add: getGroundHeight_max_spec)

lemma airborne_after_jump:
  "updateMovement openField (onKeyDown ''Space'' standing)
     = standing\<lparr>cam_y := 5.01, vel_y := 30.1, canJump := False\<rparr>"
  by (simp add: updateMovement_def Let_def onKeyDown_def standing_def openField_def
      getGroundHeight_def PLAYER_HEIGHT_def JUMP_VELOCITY_def normalize3_def crossVectors_def
      Number_def WALK_SPEED_def controls_moveForward_def controls_moveRight_def)

lemma sqrt_64_25: "sqrt (64 / 25) = 8 / 5"
  by (rule real_sqrt_unique) (simp_all add: power2_eq_square)

text \<open>The ray of \<open>isGrounded\<close> leaves the player's own sphere 0.8 below its centre, so it
  always reports a hit.\<close>

lemma isGrounded_own_sphere: "isGrounded otherHit p"
  by (simp add: isGrounded_def intersectSphere_def BODY_RADIUS_def Let_def power2_eq_square
      sqrt_64_25)

lemma handleMovement_jump:
  "bvel_y (handleMovement k otherHit dt p) =
     (if key_jump k \<and> jumpReleased p
      then (if isSwimming p \<and> body_y p > - 1.5 then 10
            else if (if isGrounded otherHit p then 0 else jumpCount p) < 3 then 8
            else bvel_y p)
      else bvel_y p)"
  by (simp add: handleMovement_def Let_def)

lemma handleMovement_count:
  "jumpCount (handleMovement k otherHit dt p) =
     (if key_jump k \<and> jumpReleased p \<and> \<not> (isSwimming p \<and> body_y p > - 1.5)
         \<and> (if isGrounded otherHit p then 0 else jumpCount p) < 3
      then (if isGrounded otherHit p then 0 else jumpCount p) + 1
      else (if isGrounded otherHit p then 0 else jumpCount p))"
  by (simp add: handleMovement_def Let_def)

lemma handleMovement_released:
  "jumpReleased (handleMovement k otherHit dt p) = (if key_jump k then False else True)"
  by (simp add: handleMovement_def Let_def)

lemma handleMovement_swimming:
  "isSwimming (handleMovement k otherHit dt p) =
     (isSwimming p \<and> \<not> (key_jump k \<and> jumpReleased p \<and> body_y p > - 1.5))"
  by (auto simp: handleMovement_def Let_def)

lemma handleMovement_position:
  "body_x (handleMovement k otherHit dt p) = body_x p
   \<and> body_y (handleMovement k otherHit dt p) = body_y p
   \<and> body_z (handleMovement k otherHit dt p) = body_z p"
  by (simp add: handleMovement_def Let_def)

text \<open>With the count reset by every frame, a released press is honoured in the air after
  three jumps as well: the limit of \<^verbatim>\<open>jumpCount < 3\<close> never applies.\<close>

lemma midAir_press_honoured:
  "jumpCount midAir = 3
   \<and> bvel_y (handleMovement jumpKey False 0.1 midAir) = 8
   \<and> jumpCount (handleMovement jumpKey False 0.1 midAir) = 1"
  by (simp add: handleMovement_jump handleMovement_count isGrounded_own_sphere)
     (simp add: midAir_def jumpKey_def)

lemma terrainClamp_fields:
  "body_x (terrainClamp w p) = body_x p \<and> body_z (terrainClamp w p) = body_z p
   \<and> body_y (terrainClamp w p) = max (body_y p) (getTerrainHeightAt w (body_x p) (body_z p) + 0.8)
   \<and> isSwimming (terrainClamp w p) = isSwimming p
   \<and> jumpReleased (terrainClamp w p) = jumpReleased p"
  by (simp add: terrainClamp_def Let_def max_def)

lemma checkWater_no_respawn:
  "\<not> body_y p < - 20 \<Longrightarrow>
     body_x (checkWater w p) = body_x p \<and> body_y (checkWater w p) = body_y p
     \<and> body_z (checkWater w p) = body_z p
     \<and> bvel_x (checkWater w p) = bvel_x p \<and> bvel_y (checkWater w p) = bvel_y p
     \<and> bvel_z (checkWater w p) = bvel_z p"
  by (simp add: checkWater_def Let_def)

lemma score_checkWinCondition: "score (checkWinCondition gs) = score gs"
  by (simp add: checkWinCondition_def)

lemma checkCollectible_collected: "collected c \<Longrightarrow> checkCollectible p gs c = (gs, c)"
  by (simp add: checkCollectible_def)

lemma collectItem_effect:
  "collected (snd (collectItem gs c)) \<and> score (fst (collectItem gs c)) = score gs + award c"
  by (simp add: collectItem_def Let_def award_def score_checkWinCondition)

lemma checkCollectible_cases:
  "checkCollectible p gs c = (gs, c) \<or> (\<not> collected c \<and> checkCollectible p gs c = collectItem gs c)"
  by (cases p) (simp add: checkCollectible_def Let_def)

lemma recheck_collected: "collected c \<Longrightarrow> recheck ps (gs, c) = (gs, c)"
  by (induction ps) (simp_all add: checkCollectible_collected)

lemma recheck_score:
  "score (fst (recheck ps (gs, c)))
     = score gs + (if collected (snd (recheck ps (gs, c))) \<and> \<not> collected c then award c else 0)"
proof (induction ps arbitrary: gs c)
  case Nil
  show ?case by simp
next
  case (Cons p ps)
  from checkCollectible_cases [of p gs c] show ?case
  proof
    assume "checkCollectible p gs c = (gs, c)"
    then show ?thesis using Cons.IH [of gs c] by simp
  next
    assume a: "\<not> collected c \<and> checkCollectible p gs c = collectItem gs c"
    obtain gs1 c1 where r: "collectItem gs c = (gs1, c1)"
      by (cases "collectItem gs c")
    with collectItem_effect [of gs c] have e: "collected c1" "score gs1 = score gs + award c"
      by simp_all
    have "recheck (p # ps) (gs, c) = (gs1, c1)"
      using a r e recheck_collected [of c1 ps gs1] by simp
    then show ?thesis using a e by simp
  qed
qed

lemma checkCollectibles_all_collected:
  "list_all collected cs \<Longrightarrow> checkCollectibles p gs cs = (gs, cs)"
  by (induction cs) (simp_all add: checkCollectible_collected)

lemma gameWon_pondVisitLoop: "gameWon (pondVisitLoop p i ponds gs) = gameWon gs"
  by (induction ponds arbitrary: i gs) (simp_all add: Let_def)

lemma gameChecks_all_collected:
  assumes "list_all collected cs"
  shows "snd (gameChecks p ponds (gs, cs)) = cs
         \<and> gameWon (fst (gameChecks p ponds (gs, cs))) = gameWon gs"
  using assms
  by (cases p)
     (simp add: gameChecks_def checkCollectibles_all_collected checkPondVisits_def
        gameWon_pondVisitLoop)

lemma gameRun_all_collected:
  "list_all collected cs \<Longrightarrow> gameWon (fst (gameRun ps ponds (gs, cs))) = gameWon gs"
proof (induction ps arbitrary: gs)
  case Nil
  show ?case by simp
next
  case (Cons p ps)
  obtain gs1 cs1 where r: "gameChecks p ponds (gs, cs) = (gs1, cs1)"
    by (cases "gameChecks p ponds (gs, cs)")
  with gameChecks_all_collected [OF Cons.prems, of p ponds gs]
  have "cs1 = cs" "gameWon gs1 = gameWon gs" by simp_all
  with Cons.IH [OF Cons.prems, of gs1] r show ?case by simp
qed

lemma checkWinCondition_won:
  "gameWon (checkWinCondition gs) = (gameWon gs \<or> list_all completed (objectives gs))"
  by (simp add: checkWinCondition_def)

lemma gameChecks_won_fixed: "gameWon gs \<Longrightarrow> gameChecks p ponds (gs, cs) = (gs, cs)"
  by (simp add: gameChecks_def)

text \<open>The win flag is raised only over three completed objectives and is never lowered.\<close>

lemma complete_keeps_completed:
  "list_all completed objs \<Longrightarrow> list_all completed (complete i objs)"
proof -
  assume a: "list_all completed objs"
  have "set (objs[i := (objs ! i)\<lparr>completed := True\<rparr>])
          \<subseteq> insert ((objs ! i)\<lparr>completed := True\<rparr>) (set objs)"
    by (rule set_update_subset_insert)
  with a show ?thesis
    by (auto simp: complete_def list_all_iff)
qed

lemma collectItem_won:
  assumes "gameWon gs \<Longrightarrow> list_all completed (objectives gs)"
    and "gameWon (fst (collectItem gs c))"
  shows "list_all completed (objectives (fst (collectItem gs c)))"
  using assms
  by (auto simp: collectItem_def Let_def checkWinCondition_def complete_keeps_completed
      split: if_splits)

lemma checkCollectible_won:
  assumes "gameWon gs \<Longrightarrow> list_all completed (objectives gs)"
    and "gameWon (fst (checkCollectible p gs c))"
  shows "list_all completed (objectives (fst (checkCollectible p gs c)))"
  using checkCollectible_cases [of p gs c] assms collectItem_won [of gs c]
  by auto

lemma checkCollectibles_won:
  assumes "gameWon gs \<Longrightarrow> list_all completed (objectives gs)"
    and "gameWon (fst (checkCollectibles p gs cs))"
  shows "list_all completed (objectives (fst (checkCollectibles p gs cs)))"
  using assms
proof (induction cs arbitrary: gs)
  case Nil
  then show ?case by simp
next
  case (Cons c cs)
  obtain gs1 c1 where r: "checkCollectible p gs c = (gs1, c1)"
    by (cases "checkCollectible p gs c")
  have inv: "gameWon gs1 \<Longrightarrow> list_all completed (objectives gs1)"
    using checkCollectible_won [of gs p c] Cons.prems(1) r by simp
  have "gameWon (fst (checkCollectibles p gs1 cs))"
    using Cons.prems(2) r by (simp split: prod.splits)
  from Cons.IH [OF inv this] r show ?case
    by (auto split: prod.splits)
qed

lemma pondVisitLoop_completed:
  "list_all completed (objectives gs)
     \<Longrightarrow> list_all completed (objectives (pondVisitLoop p i ponds gs))"
  by (induction ponds arbitrary: i gs) (simp_all add: Let_def complete_keeps_completed)

lemma gameChecks_won_only_if_completed:
  assumes "gameWon gs \<Longrightarrow> list_all completed (objectives gs)"
    and "gameWon (fst (gameChecks p ponds (gs, cs)))"
  shows "list_all completed (objectives (fst (gameChecks p ponds (gs, cs))))"
proof (cases "gameStarted gs \<and> \<not> gameWon gs")
  case False
  with assms show ?thesis by (auto simp: gameChecks_def)
next
  case True
  obtain gs1 cs1 where r: "checkCollectibles p gs cs = (gs1, cs1)"
    by (cases "checkCollectibles p gs cs")
  obtain px py pz where p: "p = (px, py, pz)"
    by (cases p)
  have res: "fst (gameChecks p ponds (gs, cs)) = pondVisitLoop (px, pz) 0 ponds gs1"
    using True r p by (simp add: gameChecks_def checkPondVisits_def)
  then have "gameWon gs1"
    using assms(2) by (simp add: gameWon_pondVisitLoop)
  then have "list_all completed (objectives gs1)"
    using checkCollectibles_won [of gs p cs] assms(1) r by simp
  then show ?thesis
    by (simp add: res pondVisitLoop_completed)
qed

lemma treasure_last_wins:
  "gameWon (fst (collectItem
      (lateGame\<lparr>objectives := threeObjectives True False True, pondsVisited := {0, 1, 2},
                treasureFound := False\<rparr>) treasure))"
  by (simp add: collectItem_def Let_def lateGame_def treasure_def threeObjectives_def
      complete_def checkWinCondition_def)

lemma updateMovement_on_ground:
  "getGroundHeight (collidables f) (cam_x s) (cam_z s) (cam_y s) + PLAYER_HEIGHT
     \<le> cam_y (updateMovement f s)"
  by (simp add: updateMovement_def Let_def)

section \<open>Claims about the collision queries\<close>

text \<open>
  C1, as stated, fails for a top height that is the number zero: \<^verbatim>\<open>checkCollision\<close> tests
  \<^verbatim>\<open>objHeight !== undefined\<close>, so a platform of height 0 under the query point lets a
  player at height 2 pass although the planar distance 0 is below the radius sum 2.
\<close>

theorem C1_zero_height_counterexample:
  "height flat_platform = Some 0
   \<and> distanceTo (0, 0) (pos_x flat_platform, pos_z flat_platform)
        < PLAYER_RADIUS + radius flat_platform
   \<and> \<not> checkCollision [flat_platform] 0 0 2"
  by (simp add: flat_platform_def distanceTo_def PLAYER_RADIUS_def)

text \<open>
  C1 (amended to an unset top height): every registered obstacle without a height blocks
  each query point whose planar distance to its centre is below
  \<open>PLAYER_RADIUS + radius\<close>, whatever the player's height.
\<close>

theorem C1_unset_height_blocks:
  assumes "obj \<in> set obs"
    and "height obj = None"
    and "distanceTo (newX, newZ) (pos_x obj, pos_z obj) < PLAYER_RADIUS + radius obj"
  shows "checkCollision obs newX newZ playerY"
  using assms by (auto simp: checkCollision_iff blocks_def)

theorem C1_unset_height_blocks_witness:
  "tree \<in> set [tree] \<and> height tree = None
   \<and> distanceTo (10.5, 1) (pos_x tree, pos_z tree) < PLAYER_RADIUS + radius tree
   \<and> checkCollision [tree] 10.5 1 1000"
proof -
  have d: "distanceTo (10.5, 1) (pos_x tree, pos_z tree) < PLAYER_RADIUS + radius tree"
    by (simp add: distanceTo_less_iff tree_def PLAYER_RADIUS_def power2_eq_square)
  have m: "tree \<in> set [tree]" by simp
  have h: "height tree = None" by (simp add: tree_def)
  from C1_unset_height_blocks [OF m h d, of 1000] d m h show ?thesis by simp
qed

text \<open>
  C2: \<open>getGroundHeight\<close> is never negative; it is the specification's resolver capped below
  by 0, and on a registry that keeps the data model's invariant (a top height, when present,
  is not negative) it is the greatest top height among the landing candidates, or 0 when
  there is none.
\<close>

theorem C2_getGroundHeight_is_max:
  "0 \<le> getGroundHeight obs x z y
   \<and> getGroundHeight obs x z y = max 0 (spec_groundHeight obs x z y)
   \<and> (heights_nonneg obs \<longrightarrow> getGroundHeight obs x z y = spec_groundHeight obs x z y)"
  using spec_groundHeight_nonneg [of obs x z y]
  by (simp add: getGroundHeight_max_spec)

theorem C2_getGroundHeight_is_max_witness:
  "heights_nonneg [tree, platform3]
   \<and> getGroundHeight [tree, platform3] 0 0 3.2 = spec_groundHeight [tree, platform3] 0 0 3.2
   \<and> spec_groundHeight [tree, platform3] 0 0 3.2 = 3"
proof -
  have inv: "heights_nonneg [tree, platform3]"
    by (simp add: heights_nonneg_def tree_def platform3_def)
  have d: "distanceTo (0, 0) (pos_x platform3, pos_z platform3) < radius platform3"
    by (simp add: distanceTo_def platform3_def)
  have "spec_heights [tree, platform3] 0 0 3.2 = [3]"
    using d by (simp add: spec_heights_def spec_candidate_def tree_def platform3_def)
  then have s: "spec_groundHeight [tree, platform3] 0 0 3.2 = 3"
    by (simp add: spec_groundHeight_def)
  from C2_getGroundHeight_is_max [of "[tree, platform3]" 0 0 "3.2"] inv s show ?thesis by simp
qed

text \<open>
  C7: the two queries depend on the registry only through the obstacles it holds: two
  registries that are permutations of each other answer every query alike.
\<close>

theorem C7_order_independent:
  assumes "mset obs = mset obs'"
  shows "checkCollision obs newX newZ playerY = checkCollision obs' newX newZ playerY
         \<and> getGroundHeight obs x z currentY = getGroundHeight obs' x z currentY"
proof -
  from assms have "set obs = set obs'"
    by (rule mset_eq_setD)
  then show ?thesis
    by (simp add: checkCollision_iff getGroundHeight_Max)
qed

theorem C7_order_independent_witness:
  "mset [tree, platform3] = mset [platform3, tree]
   \<and> checkCollision [tree, platform3] 0 0 5 = checkCollision [platform3, tree] 0 0 5
   \<and> getGroundHeight [tree, platform3] 0 0 3.2 = getGroundHeight [platform3, tree] 0 0 3.2"
proof -
  have p: "mset [tree, platform3] = mset [platform3, tree]"
    by (simp add: add.commute)
  from C7_order_independent [OF p, of 0 0 5 0 0 "3.2"] p show ?thesis by simp
qed

text \<open>
  C9, as stated, fails: \<^verbatim>\<open>registerCollidable\<close> pushes whatever it is given, so an
  obstacle of radius 0 enters the registry.
\<close>

theorem C9_zero_radius_counterexample:
  "pebble \<in> set (registerCollidable [] pebble) \<and> \<not> 0 < radius pebble"
  by (simp add: registerCollidable_def pebble_def)

text \<open>
  C9 (amended): registration validates nothing; after any sequence of registrations the
  registry is the earlier registry followed by every registered obstacle, in order.
\<close>

theorem C9_register_appends:
  "foldl registerCollidable collidableObjects objs = collidableObjects @ objs"
  by (induction objs arbitrary: collidableObjects) (simp_all add: registerCollidable_def)
section \<open>Claims about movement\<close>

text \<open>
  C4, as stated, fails: in the deep tier the sink rate assigned while running (0.8) is below
  the one assigned while walking (1.2), at a depth of 5 for instance.
\<close>

theorem C4_running_sinks_slower_counterexample:
  "snd (waterTier 5 True) = 0.8 \<and> snd (waterTier 5 False) = 1.2
   \<and> \<not> snd (waterTier 5 False) < snd (waterTier 5 True)"
  by (simp add: waterTier_def)

text \<open>
  C4 (amended): in the deep tier (depth at least 3) running raises the resistance factor
  from 0.2 to 0.4, so the player moves more effectively, and lowers the sink rate from
  1.2 to 0.8.
\<close>

theorem C4_deep_tier:
  assumes "3 \<le> waterDepth"
  shows "waterTier waterDepth True = (0.4, 0.8) \<and> waterTier waterDepth False = (0.2, 1.2)
         \<and> fst (waterTier waterDepth False) < fst (waterTier waterDepth True)
         \<and> snd (waterTier waterDepth True) < snd (waterTier waterDepth False)"
  using assms by (simp add: waterTier_def)

theorem C4_deep_tier_witness:
  "(3::real) \<le> 5 \<and> waterTier 5 True = (0.4, 0.8) \<and> waterTier 5 False = (0.2, 1.2)"
  using C4_deep_tier [of 5] by simp

text \<open>
  C5, as stated, fails in main.js: a Space press spends \<^verbatim>\<open>canJump\<close>, and only the ground
  clamp of \<^verbatim>\<open>updateMovement\<close> restores it. After a first honoured jump from the ground and
  one frame in the air (height 5.01 above ground level 2), a second Space press leaves the
  vertical velocity at 30.1 instead of setting the jump speed 35.
\<close>

theorem C5_second_jump_counterexample:
  "canJump standing
   \<and> vel_y (onKeyDown ''Space'' standing) = JUMP_VELOCITY
   \<and> cam_y (updateMovement openField (onKeyDown ''Space'' standing)) = 5.01
   \<and> vel_y (onKeyDown ''Space'' (updateMovement openField (onKeyDown ''Space'' standing))) = 30.1
   \<and> JUMP_VELOCITY = 35"
  by (simp add: airborne_after_jump) (simp add: onKeyDown_def standing_def JUMP_VELOCITY_def)

text \<open>
  C5 (amended). In main.js a Space press sets the vertical velocity to \<^verbatim>\<open>JUMP_VELOCITY\<close>
  exactly when \<^verbatim>\<open>canJump\<close> is set, and always clears \<^verbatim>\<open>canJump\<close>; no other key event
  changes it, and a frame sets \<^verbatim>\<open>canJump\<close> again only by its ground clamp (the player ends
  the frame on the resolved ground level with vertical velocity 0): one jump per ground
  touch. In Player.js jump requests are edge-triggered: a press counts only after a release,
  and otherwise leaves the vertical velocity alone. A counted press with the ray of
  \<^verbatim>\<open>isGrounded\<close> on the ground sets the vertical velocity to the jump force 8 and the jump
  count to 1, unless the player swims above height -1.5; a counted press while swimming
  above height -1.5 sets the vertical velocity to 10; the same holds for the whole frame of
  \<^verbatim>\<open>update\<close>. No press sets any other vertical velocity than 8 or 10.
\<close>

theorem C5_jump_rules:
  "vel_y (onKeyDown ''Space'' s) = (if canJump s then JUMP_VELOCITY else vel_y s)
   \<and> canJump (onKeyDown code s) = (canJump s \<and> code \<noteq> ''Space'')
   \<and> canJump (onKeyUp code s) = canJump s
   \<and> (\<not> canJump s \<and> canJump (updateMovement f s) \<longrightarrow>
        cam_y (updateMovement f s)
          = getGroundHeight (collidables f) (cam_x s) (cam_z s) (cam_y s) + PLAYER_HEIGHT
        \<and> vel_y (updateMovement f s) = 0)
   \<and> (key_jump k \<and> jumpReleased p \<and> \<not> isSwimming p \<longrightarrow>
        bvel_y (handleMovement k True dt p) = 8
        \<and> jumpCount (handleMovement k True dt p) = 1
        \<and> (- 20 \<le> body_y p \<longrightarrow> bvel_y (update w k True dt p) = 8))
   \<and> (key_jump k \<and> jumpReleased q \<and> isSwimming q \<and> body_y q > - 1.5 \<longrightarrow>
        bvel_y (handleMovement k otherHit dt q) = 10
        \<and> bvel_y (update w k otherHit dt q) = 10)
   \<and> (\<not> key_jump k' \<or> \<not> jumpReleased r \<longrightarrow>
        bvel_y (handleMovement k' otherHit dt r) = bvel_y r)
   \<and> jumpReleased (handleMovement k otherHit dt p) = (\<not> key_jump k)
   \<and> (bvel_y (handleMovement k otherHit dt p) = bvel_y p
       \<or> bvel_y (handleMovement k otherHit dt p) = 8
       \<or> bvel_y (handleMovement k otherHit dt p) = 10)"
proof -
  have m1: "vel_y (onKeyDown ''Space'' s) = (if canJump s then JUMP_VELOCITY else vel_y s)
      \<and> canJump (onKeyDown code s) = (canJump s \<and> code \<noteq> ''Space'')
      \<and> canJump (onKeyUp code s) = canJump s"
    by (simp add: onKeyDown_def onKeyUp_def)
  have m2: "\<not> canJump s \<and> canJump (updateMovement f s) \<longrightarrow>
        cam_y (updateMovement f s)
          = getGroundHeight (collidables f) (cam_x s) (cam_z s) (cam_y s) + PLAYER_HEIGHT
        \<and> vel_y (updateMovement f s) = 0"
    by (simp add: updateMovement_def Let_def)
  have g: "isGrounded True x" for x
    by (simp add: isGrounded_def Let_def)
  have p1: "key_jump k \<and> jumpReleased p \<and> \<not> isSwimming p \<longrightarrow>
        bvel_y (handleMovement k True dt p) = 8
        \<and> jumpCount (handleMovement k True dt p) = 1
        \<and> (- 20 \<le> body_y p \<longrightarrow> bvel_y (update w k True dt p) = 8)"
  proof
    assume h: "key_jump k \<and> jumpReleased p \<and> \<not> isSwimming p"
    let ?c = "terrainClamp w p"
    have hm: "bvel_y (handleMovement k True dt p) = 8 \<and> jumpCount (handleMovement k True dt p) = 1"
      using h by (simp add: handleMovement_jump handleMovement_count g)
    have fr: "bvel_y (update w k True dt p) = 8" if y: "- 20 \<le> body_y p"
    proof -
      have c: "jumpReleased ?c \<and> \<not> isSwimming ?c \<and> \<not> body_y ?c < - 20"
        using h y by (simp add: terrainClamp_fields)
      then have v: "bvel_y (handleMovement k True dt ?c) = 8"
        using h by (simp add: handleMovement_jump g)
      have "\<not> body_y (handleMovement k True dt ?c) < - 20"
        using c by (simp add: handleMovement_position)
      from checkWater_no_respawn [OF this, of w] v show ?thesis
        by (simp add: update_def)
    qed
    from hm fr show "bvel_y (handleMovement k True dt p) = 8
        \<and> jumpCount (handleMovement k True dt p) = 1
        \<and> (- 20 \<le> body_y p \<longrightarrow> bvel_y (update w k True dt p) = 8)"
      by blast
  qed
  have p2: "key_jump k \<and> jumpReleased q \<and> isSwimming q \<and> body_y q > - 1.5 \<longrightarrow>
        bvel_y (handleMovement k otherHit dt q) = 10
        \<and> bvel_y (update w k otherHit dt q) = 10"
  proof
    assume h: "key_jump k \<and> jumpReleased q \<and> isSwimming q \<and> body_y q > - 1.5"
    let ?c = "terrainClamp w q"
    have hm: "bvel_y (handleMovement k otherHit dt q) = 10"
      using h by (simp add: handleMovement_jump)
    have c: "jumpReleased ?c \<and> isSwimming ?c \<and> body_y ?c > - 1.5"
      using h by (simp add: terrainClamp_fields less_max_iff_disj)
    then have v: "bvel_y (handleMovement k otherHit dt ?c) = 10"
      using h by (simp add: handleMovement_jump)
    have "\<not> body_y (handleMovement k otherHit dt ?c) < - 20"
      using c by (simp add: handleMovement_position)
    from checkWater_no_respawn [OF this, of w] v hm
    show "bvel_y (handleMovement k otherHit dt q) = 10
        \<and> bvel_y (update w k otherHit dt q) = 10"
      by (simp add: update_def)
  qed
  have p3: "\<not> key_jump k' \<or> \<not> jumpReleased r \<longrightarrow>
        bvel_y (handleMovement k' otherHit dt r) = bvel_y r"
    by (auto simp: handleMovement_jump)
  have p4: "jumpReleased (handleMovement k otherHit dt p) = (\<not> key_jump k)"
    by (simp add: handleMovement_released)
  have p5: "bvel_y (handleMovement k otherHit dt p) = bvel_y p
       \<or> bvel_y (handleMovement k otherHit dt p) = 8
       \<or> bvel_y (handleMovement k otherHit dt p) = 10"
    by (simp add: handleMovement_jump)
  from m1 m2 p1 p2 p3 p4 p5 show ?thesis by blast
qed

theorem C5_jump_rules_witness:
  "\<not> canJump falling \<and> canJump (updateMovement openField falling)
   \<and> cam_y (updateMovement openField falling) = 2
   \<and> key_jump jumpKey \<and> jumpReleased onGround \<and> \<not> isSwimming onGround
   \<and> - 20 \<le> body_y onGround
   \<and> bvel_y (update flatWorld jumpKey True 0.1 onGround) = 8
   \<and> jumpReleased afloat \<and> isSwimming afloat \<and> body_y afloat > - 1.5
   \<and> bvel_y (update flatWorld jumpKey False 0.1 afloat) = 10
   \<and> \<not> key_jump noKey
   \<and> bvel_y (handleMovement noKey False 0.1 midAir) = bvel_y midAir"
proof -
  have land: "updateMovement openField falling
      = falling\<lparr>cam_y := 2, vel_y := 0, canJump := True\<rparr>"
    by (simp add: updateMovement_def Let_def falling_def standing_def openField_def
        getGroundHeight_def PLAYER_HEIGHT_def normalize3_def crossVectors_def Number_def
        WALK_SPEED_def controls_moveForward_def controls_moveRight_def)
  have h1: "\<not> canJump falling \<and> canJump (updateMovement openField falling)"
    by (simp add: land) (simp add: falling_def)
  have h2: "key_jump jumpKey \<and> jumpReleased onGround \<and> \<not> isSwimming onGround
      \<and> - 20 \<le> body_y onGround"
    by (simp add: jumpKey_def onGround_def)
  have h3: "key_jump jumpKey \<and> jumpReleased afloat \<and> isSwimming afloat \<and> body_y afloat > - 1.5"
    by (simp add: jumpKey_def afloat_def)
  have h4: "\<not> key_jump noKey"
    by (simp add: noKey_def)
  have g: "getGroundHeight (collidables openField) (cam_x falling) (cam_z falling) (cam_y falling)
             + PLAYER_HEIGHT = 2"
    by (simp add: openField_def getGroundHeight_def PLAYER_HEIGHT_def)
  from C5_jump_rules [of falling "''Space''" openField jumpKey onGround "0.1" flatWorld
      afloat False noKey midAir]
    h1 h2 h3 h4 g
  show ?thesis by simp
qed

text \<open>
  C6, as stated, fails for the frame as a whole: \<^verbatim>\<open>Player.update\<close> opens with the terrain
  clamp, so a body at height -25 over the flat terrain square ends the frame at height 0.8
  above the same point, still moving sideways, and not at the spawn point \<open>(0, 2, 0)\<close>; and
  \<^verbatim>\<open>updateMovement\<close> of main.js lifts a camera at height -50 to the ground level 2 at its
  own \<open>x\<close> and \<open>z\<close>.
\<close>

theorem C6_clamped_not_respawned_counterexample:
  "body_y sunk < - 20
   \<and> body_x (update flatWorld noKey False 0.1 sunk) = 5
   \<and> body_y (update flatWorld noKey False 0.1 sunk) = 0.8
   \<and> body_z (update flatWorld noKey False 0.1 sunk) = 5
   \<and> bvel_x (update flatWorld noKey False 0.1 sunk) = 1.5
   \<and> getTerrainHeightAt flatWorld 0 0 + 2 = 2
   \<and> cam_y buried < - 20
   \<and> cam_x (updateMovement openField buried) = 7
   \<and> cam_y (updateMovement openField buried) = 2"
proof -
  have t: "getTerrainHeightAt flatWorld 5 5 = 0" "getTerrainHeightAt flatWorld 0 0 = 0"
    by (simp_all add: getTerrainHeightAt_def flatWorld_def Let_def)
  have c: "terrainClamp flatWorld sunk = sunk\<lparr>body_y := 0.8, bvel_y := 0\<rparr>"
    using t by (simp add: terrainClamp_def Let_def sunk_def)
  have u: "update flatWorld noKey False 0.1 sunk
      = sunk\<lparr>body_y := 0.8, bvel_x := 1.5, bvel_y := 0, jumpReleased := True\<rparr>"
    by (simp add: update_def c)
       (simp add: handleMovement_def checkWater_def Let_def sunk_def noKey_def
          isGrounded_own_sphere)
  have m: "updateMovement openField buried = buried\<lparr>cam_y := 2, vel_y := 0\<rparr>"
    by (simp add: updateMovement_def Let_def buried_def standing_def openField_def
        getGroundHeight_def PLAYER_HEIGHT_def normalize3_def crossVectors_def Number_def
        WALK_SPEED_def controls_moveForward_def controls_moveRight_def)
  show ?thesis
    by (simp add: u m t) (simp add: sunk_def buried_def standing_def)
qed

text \<open>
  C6 (amended). Every frame \<^verbatim>\<open>Player.update\<close> first lifts a body below the terrain height
  plus 0.8 to that height, and ends with the check of \<^verbatim>\<open>checkWater\<close> (in both revisions
  of the class): a body below height -20 at that check leaves it at the spawn point
  \<open>(0, terrain(0, 0) + 2, 0)\<close>, above the clamp height there, with zero velocity. So a frame
  that starts below -20 ends respawned when the clamp height at the body's position is below
  -20 as well (as outside the terrain square, where the terrain height reads -100); every
  other frame keeps \<open>x\<close> and \<open>z\<close> and ends at the greater of the body's height and the clamp
  height. \<^verbatim>\<open>updateMovement\<close> of main.js has no threshold and no spawn point: each of its
  frames ends on or above the resolved ground. Every function involved is total: no error
  is raised.
\<close>

theorem C6_respawn:
  "(body_y p < - 20 \<longrightarrow>
      body_x (checkWater w p) = 0
      \<and> body_y (checkWater w p) = getTerrainHeightAt w 0 0 + 2
      \<and> body_z (checkWater w p) = 0
      \<and> bvel_x (checkWater w p) = 0 \<and> bvel_y (checkWater w p) = 0 \<and> bvel_z (checkWater w p) = 0
      \<and> getTerrainHeightAt w (body_x (checkWater w p)) (body_z (checkWater w p)) + 0.8
           \<le> body_y (checkWater w p))
   \<and> (body_y p < - 20 \<longrightarrow>
      body_x (checkWater_earlier w p) = 0
      \<and> body_y (checkWater_earlier w p) = getTerrainHeightAt w 0 0 + 2
      \<and> body_z (checkWater_earlier w p) = 0
      \<and> bvel_x (checkWater_earlier w p) = 0 \<and> bvel_y (checkWater_earlier w p) = 0
      \<and> bvel_z (checkWater_earlier w p) = 0)
   \<and> (body_y p < - 20 \<and> getTerrainHeightAt w (body_x p) (body_z p) + 0.8 < - 20 \<longrightarrow>
      body_x (update w k otherHit dt p) = 0
      \<and> body_y (update w k otherHit dt p) = getTerrainHeightAt w 0 0 + 2
      \<and> body_z (update w k otherHit dt p) = 0
      \<and> bvel_x (update w k otherHit dt p) = 0 \<and> bvel_y (update w k otherHit dt p) = 0
      \<and> bvel_z (update w k otherHit dt p) = 0)
   \<and> (\<not> (body_y q < - 20 \<and> getTerrainHeightAt w (body_x q) (body_z q) + 0.8 < - 20) \<longrightarrow>
      body_x (update w k otherHit dt q) = body_x q
      \<and> body_y (update w k otherHit dt q)
           = max (body_y q) (getTerrainHeightAt w (body_x q) (body_z q) + 0.8)
      \<and> body_z (update w k otherHit dt q) = body_z q)
   \<and> getGroundHeight (collidables f) (cam_x s) (cam_z s) (cam_y s) + PLAYER_HEIGHT
        \<le> cam_y (updateMovement f s)
   \<and> - 20 < cam_y (updateMovement f s)"
proof -
  have a: "body_y p < - 20 \<longrightarrow>
      body_x (checkWater w p) = 0
      \<and> body_y (checkWater w p) = getTerrainHeightAt w 0 0 + 2
      \<and> body_z (checkWater w p) = 0
      \<and> bvel_x (checkWater w p) = 0 \<and> bvel_y (checkWater w p) = 0 \<and> bvel_z (checkWater w p) = 0
      \<and> getTerrainHeightAt w (body_x (checkWater w p)) (body_z (checkWater w p)) + 0.8
           \<le> body_y (checkWater w p)"
    by (simp add: checkWater_def resetToGround_def Let_def)
  have b: "body_y p < - 20 \<longrightarrow>
      body_x (checkWater_earlier w p) = 0
      \<and> body_y (checkWater_earlier w p) = getTerrainHeightAt w 0 0 + 2
      \<and> body_z (checkWater_earlier w p) = 0
      \<and> bvel_x (checkWater_earlier w p) = 0 \<and> bvel_y (checkWater_earlier w p) = 0
      \<and> bvel_z (checkWater_earlier w p) = 0"
    by (simp add: checkWater_earlier_def resetToGround_def Let_def)
  have c: "body_y p < - 20 \<and> getTerrainHeightAt w (body_x p) (body_z p) + 0.8 < - 20 \<longrightarrow>
      body_x (update w k otherHit dt p) = 0
      \<and> body_y (update w k otherHit dt p) = getTerrainHeightAt w 0 0 + 2
      \<and> body_z (update w k otherHit dt p) = 0
      \<and> bvel_x (update w k otherHit dt p) = 0 \<and> bvel_y (update w k otherHit dt p) = 0
      \<and> bvel_z (update w k otherHit dt p) = 0"
  proof
    assume h: "body_y p < - 20 \<and> getTerrainHeightAt w (body_x p) (body_z p) + 0.8 < - 20"
    let ?q = "handleMovement k otherHit dt (terrainClamp w p)"
    have "body_y (terrainClamp w p) < - 20"
      using h by (simp add: terrainClamp_fields)
    then have "body_y ?q < - 20"
      by (simp add: handleMovement_position)
    then show "body_x (update w k otherHit dt p) = 0
      \<and> body_y (update w k otherHit dt p) = getTerrainHeightAt w 0 0 + 2
      \<and> body_z (update w k otherHit dt p) = 0
      \<and> bvel_x (update w k otherHit dt p) = 0 \<and> bvel_y (update w k otherHit dt p) = 0
      \<and> bvel_z (update w k otherHit dt p) = 0"
      by (simp add: update_def checkWater_def resetToGround_def Let_def)
  qed
  have e: "\<not> (body_y q < - 20 \<and> getTerrainHeightAt w (body_x q) (body_z q) + 0.8 < - 20) \<longrightarrow>
      body_x (update w k otherHit dt q) = body_x q
      \<and> body_y (update w k otherHit dt q)
           = max (body_y q) (getTerrainHeightAt w (body_x q) (body_z q) + 0.8)
      \<and> body_z (update w k otherHit dt q) = body_z q"
  proof
    assume h: "\<not> (body_y q < - 20 \<and> getTerrainHeightAt w (body_x q) (body_z q) + 0.8 < - 20)"
    let ?m = "handleMovement k otherHit dt (terrainClamp w q)"
    have pos: "body_x ?m = body_x q \<and> body_z ?m = body_z q
        \<and> body_y ?m = max (body_y q) (getTerrainHeightAt w (body_x q) (body_z q) + 0.8)"
      by (simp add: handleMovement_position terrainClamp_fields)
    then have "\<not> body_y ?m < - 20"
      using h by auto
    from checkWater_no_respawn [OF this, of w] pos
    show "body_x (update w k otherHit dt q) = body_x q
      \<and> body_y (update w k otherHit dt q)
           = max (body_y q) (getTerrainHeightAt w (body_x q) (body_z q) + 0.8)
      \<and> body_z (update w k otherHit dt q) = body_z q"
      by (simp add: update_def)
  qed
  have d: "getGroundHeight (collidables f) (cam_x s) (cam_z s) (cam_y s) + PLAYER_HEIGHT
        \<le> cam_y (updateMovement f s) \<and> - 20 < cam_y (updateMovement f s)"
    using updateMovement_on_ground [of f s]
      getGroundHeight_nonneg [of "collidables f" "cam_x s" "cam_z s" "cam_y s"]
    by (simp add: PLAYER_HEIGHT_def)
  from a b c e d show ?thesis by blast
qed

theorem C6_respawn_witness:
  "body_y fallen < - 20
   \<and> getTerrainHeightAt flatWorld (body_x fallen) (body_z fallen) + 0.8 < - 20
   \<and> body_x (update flatWorld noKey False 0.1 fallen) = 0
   \<and> body_y (update flatWorld noKey False 0.1 fallen) = 2
   \<and> body_z (update flatWorld noKey False 0.1 fallen) = 0
   \<and> bvel_x (update flatWorld noKey False 0.1 fallen) = 0
   \<and> bvel_y (checkWater flatWorld fallen) = 0
   \<and> \<not> (body_y sunk < - 20
         \<and> getTerrainHeightAt flatWorld (body_x sunk) (body_z sunk) + 0.8 < - 20)
   \<and> body_x (update flatWorld noKey False 0.1 sunk) = 5
   \<and> body_y (update flatWorld noKey False 0.1 sunk) = 0.8"
proof -
  have h1: "body_y fallen < - 20"
    by (simp add: fallen_def)
  have h2: "getTerrainHeightAt flatWorld (body_x fallen) (body_z fallen) + 0.8 < - 20"
    by (simp add: getTerrainHeightAt_def flatWorld_def fallen_def Let_def)
  have o: "getTerrainHeightAt flatWorld 0 0 = 0"
    by (simp add: getTerrainHeightAt_def flatWorld_def Let_def)
  have t: "getTerrainHeightAt flatWorld (body_x sunk) (body_z sunk) = 0"
    by (simp add: getTerrainHeightAt_def flatWorld_def sunk_def Let_def)
  have h3: "\<not> (body_y sunk < - 20
         \<and> getTerrainHeightAt flatWorld (body_x sunk) (body_z sunk) + 0.8 < - 20)"
    by (simp add: t)
  have y: "body_x sunk = 5 \<and> body_y sunk = - 25"
    by (simp add: sunk_def)
  from C6_respawn [of fallen flatWorld noKey False "0.1" sunk] h1 h2 h3 o t y
  show ?thesis by simp
qed

text \<open>
  C10: a frame of \<^verbatim>\<open>updateMovement\<close> ends with the camera at or above the ground level
  resolved at its start (the ground height there plus \<^verbatim>\<open>PLAYER_HEIGHT\<close>), hence at or
  above \<^verbatim>\<open>PLAYER_HEIGHT\<close>, whatever gravity, sinking and the control moves did before the
  final clamp.
\<close>

theorem C10_above_ground:
  "getGroundHeight (collidables f) (cam_x s) (cam_z s) (cam_y s) + PLAYER_HEIGHT
     \<le> cam_y (updateMovement f s)
   \<and> PLAYER_HEIGHT \<le> cam_y (updateMovement f s)
   \<and> currentGroundHeight (updateMovement f s)
       = getGroundHeight (collidables f) (cam_x s) (cam_z s) (cam_y s)"
  using getGroundHeight_nonneg [of "collidables f" "cam_x s" "cam_z s" "cam_y s"]
    updateMovement_on_ground [of f s]
  by (simp add: updateMovement_def Let_def)

section \<open>Claims about the game state\<close>

text \<open>
  C3: the win flag follows the three objectives. Where the code departs: the third pond
  completes its objective inside \<^verbatim>\<open>checkPondVisits\<close>, which never calls
  \<^verbatim>\<open>checkWinCondition\<close> (only \<^verbatim>\<open>collectItem\<close> does). With every collectible already
  collected, the frame that discovers the third pond leaves all three objectives completed
  and the game not won, and no later frame wins it.
\<close>

theorem C3_third_pond_last_never_won:
  "list_all completed (objectives (fst (gameChecks thirdPond parkPonds (lateGame, allCollected))))
   \<and> \<not> gameWon (fst (gameChecks thirdPond parkPonds (lateGame, allCollected)))
   \<and> \<not> gameWon (fst (gameRun (thirdPond # ps) parkPonds (lateGame, allCollected)))"
proof -
  have all: "list_all collected allCollected"
    by (simp add: allCollected_def)
  have far: "\<not> distanceTo (- 30, - 60) (50, - 50) < 20"
    by (simp add: distanceTo_less_iff power2_eq_square)
  have near: "distanceTo (- 30, - 60) (- 30, - 60) < 20"
    by (simp add: distanceTo_def)
  have visit: "checkPondVisits thirdPond parkPonds lateGame
      = lateGame\<lparr>pondsVisited := {2, 0, 1}, objectives := threeObjectives True True True\<rparr>"
    using far near
    by (simp add: checkPondVisits_def thirdPond_def parkPonds_def lateGame_def Let_def
        complete_def threeObjectives_def numeral_2_eq_2)
  have frame: "gameChecks thirdPond parkPonds (lateGame, allCollected)
      = (lateGame\<lparr>pondsVisited := {2, 0, 1}, objectives := threeObjectives True True True\<rparr>,
         allCollected)"
    using visit by (simp add: gameChecks_def checkCollectibles_all_collected [OF all] lateGame_def)
  have "gameWon (fst (gameRun (thirdPond # ps) parkPonds (lateGame, allCollected)))
      = gameWon (lateGame\<lparr>pondsVisited := {2, 0, 1},
                  objectives := threeObjectives True True True\<rparr>)"
    using gameRun_all_collected [OF all] by (simp add: frame)
  then show ?thesis
    by (simp add: frame) (simp add: lateGame_def threeObjectives_def)
qed

text \<open>
  C8: a collected collectible is skipped by every later proximity check, which leaves the
  game state and the collectible as they were; a check of an uncollected one either changes
  nothing or sets the flag and adds the collectible's value (500 for the treasure chest) to
  the score; so over any run of checks the score gains that value exactly if the flag went
  from false to true, and never a second time.
\<close>

theorem C8_collected_once:
  "(collected c \<longrightarrow> checkCollectible p gs c = (gs, c))
   \<and> (\<not> collected c \<longrightarrow>
        checkCollectible p gs c = (gs, c)
        \<or> (collected (snd (checkCollectible p gs c))
           \<and> score (fst (checkCollectible p gs c)) = score gs + award c))
   \<and> (collected c \<longrightarrow> recheck ps (gs, c) = (gs, c))
   \<and> score (fst (recheck ps (gs, c)))
        = score gs + (if collected (snd (recheck ps (gs, c))) \<and> \<not> collected c
                      then award c else 0)"
  using checkCollectible_cases [of p gs c] collectItem_effect [of gs c]
    recheck_score [of ps gs c]
  by (auto simp: checkCollectible_collected recheck_collected)

theorem C8_collected_once_witness:
  "collected (gem\<lparr>collected := True\<rparr>)
   \<and> checkCollectible atGem newGame (gem\<lparr>collected := True\<rparr>)
        = (newGame, gem\<lparr>collected := True\<rparr>)
   \<and> \<not> collected gem
   \<and> collected (snd (checkCollectible atGem newGame gem))
   \<and> score (fst (recheck [atGem, atGem, atGem] (newGame, gem))) = score newGame + 100"
proof -
  have first: "checkCollectible atGem newGame gem = collectItem newGame gem"
    by (simp add: checkCollectible_def atGem_def gem_def)
  have c1: "collected (snd (checkCollectible atGem newGame gem))"
    using collectItem_effect [of newGame gem] by (simp add: first)
  obtain gs1 c' where r: "collectItem newGame gem = (gs1, c')"
    by (cases "collectItem newGame gem")
  with c1 first have "collected c'" by simp
  then have "recheck [atGem, atGem, atGem] (newGame, gem) = (gs1, c')"
    using first r by (simp add: checkCollectible_collected)
  then have c3: "collected (snd (recheck [atGem, atGem, atGem] (newGame, gem)))"
    using \<open>collected c'\<close> by simp
  have n: "\<not> collected gem" by (simp add: gem_def)
  have a: "award gem = 100" by (simp add: award_def gem_def)
  from C8_collected_once [of "gem\<lparr>collected := True\<rparr>" atGem newGame "[]"]
    C8_collected_once [of gem atGem newGame "[atGem, atGem, atGem]"] c1 c3 n a
  show ?thesis by simp
qed


end
